theory Spec2Isabelle
  imports Main
begin

section \<open>Random shuffle planning: \<open>ray/data/_internal/planner/random_shuffle.py\<close>\<close>

text \<open>
  The module has one function, \<open>generate_random_shuffle_fn\<close>, which resolves the seed and
  returns the closure \<open>fn\<close>. The closure reads and rebinds a captured variable
  (\<open>nonlocal ray_remote_args\<close>), mutates a shared \<open>MapTransformer\<close> object, may raise
  \<open>NotImplementedError\<close>, and delegates to one of two schedulers. The model makes each
  of these explicit: the captured variables are a record that \<open>fn\<close> takes and returns,
  the shared objects live in a store, the exception is the left summand of the result, and
  every call that leaves the module is appended to a log.
\<close>

subsection \<open>Data\<close>

text \<open>A \<open>RefBundle\<close>: only \<open>r.blocks\<close> is read, and only its length. Blocks are handles.\<close>

record RefBundle =
  blocks :: "nat list"

text \<open>
  Block-size limits. The source passes \<open>float("inf")\<close> to
  \<open>set_target_max_block_size\<close>; every other limit is passed through unread.
\<close>

datatype block_size = Bytes int | Infinite

text \<open>
  \<open>TaskContext\<close>, the three attributes \<open>fn\<close> reads. A \<open>MapTransformer\<close> is a shared mutable
  object, so the context holds its identity (a key of the store); \<open>None\<close> is Python's
  \<open>None\<close>. The remote arguments (\<open>Dict[str, Any]\<close>) are never inspected, so their type is
  the parameter \<open>'r\<close>.
\<close>

record 'r TaskContext =
  target_max_block_size :: block_size
  upstream_map_transformer :: "nat option"
  upstream_map_ray_remote_args :: "'r option"

text \<open>
  The inner closure \<open>upstream_map_fn(blocks) = map_transformer.apply_transform(blocks, ctx)\<close>
  is determined by the two variables it captures.
\<close>

datatype 'r upstream_fn = ApplyTransform nat "'r TaskContext"

text \<open>\<open>ShuffleTaskSpec(ctx.target_max_block_size, random_shuffle, random_seed, upstream_map_fn)\<close>.\<close>

record 'r ShuffleTaskSpec =
  target_shuffle_max_block_size :: block_size
  random_shuffle :: bool
  random_seed :: int
  upstream_map_fn :: "'r upstream_fn option"

datatype 'r scheduler =
    PushBasedShuffleTaskScheduler "'r ShuffleTaskSpec"
  | PullBasedShuffleTaskScheduler "'r ShuffleTaskSpec"

text \<open>One call of \<open>scheduler.execute\<close>, with the receiver and every argument of lines 82-91.\<close>

record 'r execute_call =
  scheduler :: "'r scheduler"
  refs :: "RefBundle list"
  output_num_blocks :: int
  task_ctx :: "'r TaskContext"
  map_ray_remote_args :: "'r option"
  reduce_ray_remote_args :: "'r option"
  debug_limit_execution_to_num_blocks :: "int option"

text \<open>
  Modelled from the spec: the enumeration \<open>ShuffleStrategy\<close> is declared in
  \<open>ray.data.context\<close>, which is not part of the sources at hand. The source names one
  member, \<open>SORT_SHUFFLE_PUSH_BASED\<close>, and treats every other member alike; the spec gives
  the configuration as "a single enumerated value selecting shuffle strategy, e.g.
  \<open>{DEFAULT, PUSH_BASED}\<close>".
\<close>

datatype ShuffleStrategy = DEFAULT | SORT_SHUFFLE_PUSH_BASED

record DataContext =
  shuffle_strategy :: ShuffleStrategy

text \<open>
  Modelled from the spec: the constant \<open>INT32_MAX\<close> is imported from \<open>ray.util.common\<close>,
  which is not part of the sources at hand; the spec calls the resolved seed "an int32 in
  \<open>[0, INT32_MAX)\<close>", so the constant is the largest 32-bit signed integer.
\<close>

definition INT32_MAX :: int where
  "INT32_MAX = 2 ^ 31 - 1"

datatype error = NotImplementedError

text \<open>What leaves the module, in the order it happens.\<close>

datatype 'r event =
    SetTargetMaxBlockSize nat block_size
  | NewShuffleTaskSpec "'r ShuffleTaskSpec"
  | Execute "'r execute_call"

text \<open>
  The objects \<open>fn\<close> shares with its environment: the \<open>DataContext\<close> it was constructed with
  (an object reference, whose \<open>shuffle_strategy\<close> is read at every invocation), the
  \<open>target_max_block_size\<close> attribute of each \<open>MapTransformer\<close>, and the log of outgoing calls.
\<close>

record 'r world =
  data_context :: DataContext
  map_transformers :: "nat \<Rightarrow> block_size option"
  trace :: "'r event list"

text \<open>
  The variables \<open>fn\<close> captures from \<open>generate_random_shuffle_fn\<close>. \<open>ray_remote_args\<close> is
  declared \<open>nonlocal\<close> and assigned in \<open>fn\<close>, so the record is threaded through each call.
\<close>

record 'r closure =
  seed :: int
  num_outputs :: "int option"
  ray_remote_args :: "'r option"
  debug_limit_shuffle_execution_to_num_blocks :: "int option"

subsection \<open>Operations\<close>

text \<open>
  Line 35: \<open>seed if seed is not None else (time.time_ns() % INT32_MAX)\<close>. The reading of the
  clock is the first argument; Python's \<open>%\<close> with a positive modulus is \<open>mod\<close> on \<open>int\<close>.
  The body does nothing else before returning \<open>fn\<close>.
\<close>

definition generate_random_shuffle_fn ::
  "int \<Rightarrow> int option \<Rightarrow> int option \<Rightarrow> 'r option \<Rightarrow> int option \<Rightarrow> 'r closure" where
  "generate_random_shuffle_fn time_ns seed0 num_outputs0 ray_remote_args0 debug_limit =
     \<lparr> seed = (case seed0 of Some s \<Rightarrow> s | None \<Rightarrow> time_ns mod INT32_MAX),
       num_outputs = num_outputs0,
       ray_remote_args = ray_remote_args0,
       debug_limit_shuffle_execution_to_num_blocks = debug_limit \<rparr>"

text \<open>Line 41: \<open>sum(len(r.blocks) for r in refs)\<close>.\<close>

definition num_input_blocks :: "RefBundle list \<Rightarrow> int" where
  "num_input_blocks rs = sum_list (map (\<lambda>r. int (length (blocks r))) rs)"

text \<open>
  Line 84: \<open>num_outputs or num_input_blocks\<close>. Python's \<open>or\<close> yields its left operand when
  that is truthy; \<open>None\<close> and \<open>0\<close> are not.
\<close>

definition py_or :: "int option \<Rightarrow> int \<Rightarrow> int" where
  "py_or a b = (case a of None \<Rightarrow> b | Some n \<Rightarrow> if n = 0 then b else n)"

text \<open>Lines 49-64: the branch taken when a transformer is attached.\<close>

definition fuse_upstream ::
  "'r closure \<Rightarrow> 'r world \<Rightarrow> 'r TaskContext \<Rightarrow> 'r upstream_fn option \<times> 'r closure \<times> 'r world" where
  "fuse_upstream c w ctx =
     (case upstream_map_transformer ctx of
        None \<Rightarrow> (None, c, w)
      | Some mt \<Rightarrow>
          (Some (ApplyTransform mt ctx),
           c\<lparr>ray_remote_args := upstream_map_ray_remote_args ctx\<rparr>,
           w\<lparr>map_transformers := (map_transformers w)(mt \<mapsto> Infinite),
             trace := trace w @ [SetTargetMaxBlockSize mt Infinite]\<rparr>))"

text \<open>Lines 82-91: the delegated call; its own result is represented by the call.\<close>

definition execute ::
  "'r scheduler \<Rightarrow> 'r closure \<Rightarrow> 'r world \<Rightarrow> RefBundle list \<Rightarrow> 'r TaskContext \<Rightarrow>
   (error + 'r execute_call) \<times> 'r closure \<times> 'r world" where
  "execute s c w rs ctx =
     (let call = \<lparr> scheduler = s,
                   refs = rs,
                   output_num_blocks = py_or (num_outputs c) (num_input_blocks rs),
                   task_ctx = ctx,
                   map_ray_remote_args = ray_remote_args c,
                   reduce_ray_remote_args = ray_remote_args c,
                   debug_limit_execution_to_num_blocks =
                     debug_limit_shuffle_execution_to_num_blocks c \<rparr>
      in (Inr call, c, w\<lparr>trace := trace w @ [Execute call]\<rparr>))"

text \<open>The closure \<open>fn(refs, ctx)\<close>, lines 37-91.\<close>

definition fn ::
  "'r closure \<Rightarrow> 'r world \<Rightarrow> RefBundle list \<Rightarrow> 'r TaskContext \<Rightarrow>
   (error + 'r execute_call) \<times> 'r closure \<times> 'r world" where
  "fn c w rs ctx =
     (case fuse_upstream c w ctx of
        (upstream, c1, w1) \<Rightarrow>
          (let shuffle_spec = \<lparr> target_shuffle_max_block_size = target_max_block_size ctx,
                                random_shuffle = True,
                                random_seed = seed c1,
                                upstream_map_fn = upstream \<rparr>;
               w2 = w1\<lparr>trace := trace w1 @ [NewShuffleTaskSpec shuffle_spec]\<rparr>
           in if shuffle_strategy (data_context w2) = SORT_SHUFFLE_PUSH_BASED
              then (if num_outputs c1 \<noteq> None
                    then (Inl NotImplementedError, c1, w2)
                    else execute (PushBasedShuffleTaskScheduler shuffle_spec) c1 w2 rs ctx)
              else execute (PullBasedShuffleTaskScheduler shuffle_spec) c1 w2 rs ctx))"

text \<open>
  A caller that invokes the same transform repeatedly, recording each outcome. An
  exception ends one invocation, not the transform: the closure and the shared objects
  keep what the failed invocation did to them.
\<close>

fun invoke_all ::
  "'r closure \<Rightarrow> 'r world \<Rightarrow> (RefBundle list \<times> 'r TaskContext) list \<Rightarrow>
   (error + 'r execute_call) list \<times> 'r closure \<times> 'r world" where
  "invoke_all c w [] = ([], c, w)"
| "invoke_all c w ((rs, ctx) # rest) =
     (case fn c w rs ctx of
        (r, c1, w1) \<Rightarrow>
          (case invoke_all c1 w1 rest of
             (outs, c2, w2) \<Rightarrow> (r # outs, c2, w2)))"

subsection \<open>Observations on the log\<close>

fun executed :: "'r event list \<Rightarrow> 'r execute_call list" where
  "executed [] = []"
| "executed (Execute call # es) = call # executed es"
| "executed (_ # es) = executed es"

fun built_specs :: "'r event list \<Rightarrow> 'r ShuffleTaskSpec list" where
  "built_specs [] = []"
| "built_specs (NewShuffleTaskSpec s # es) = s # built_specs es"
| "built_specs (_ # es) = built_specs es"

fun overrides :: "'r event list \<Rightarrow> (nat \<times> block_size) list" where
  "overrides [] = []"
| "overrides (SetTargetMaxBlockSize mt b # es) = (mt, b) # overrides es"
| "overrides (_ # es) = overrides es"

fun spec_of :: "'r scheduler \<Rightarrow> 'r ShuffleTaskSpec" where
  "spec_of (PushBasedShuffleTaskScheduler s) = s"
| "spec_of (PullBasedShuffleTaskScheduler s) = s"

text \<open>The transformers attached to a series of invocations, in order.\<close>

fun attached :: "(RefBundle list \<times> 'r TaskContext) list \<Rightarrow> nat list" where
  "attached [] = []"
| "attached ((rs, ctx) # rest) =
     (case upstream_map_transformer ctx of
        None \<Rightarrow> attached rest
      | Some mt \<Rightarrow> mt # attached rest)"

text \<open>
  The value \<open>ray_remote_args\<close> is bound to after a series of invocations that starts
  with it bound to \<open>a\<close>: the upstream arguments of the last context with a transformer.
\<close>

fun last_rebinding :: "'r option \<Rightarrow> (RefBundle list \<times> 'r TaskContext) list \<Rightarrow> 'r option" where
  "last_rebinding a [] = a"
| "last_rebinding a ((rs, ctx) # rest) =
     last_rebinding
       (case upstream_map_transformer ctx of
          None \<Rightarrow> a
        | Some mt \<Rightarrow> upstream_map_ray_remote_args ctx) rest"

text \<open>The calls that a list of outcomes delegated: an exception delegates nothing.\<close>

fun delegated :: "(error + 'r execute_call) list \<Rightarrow> 'r execute_call list" where
  "delegated [] = []"
| "delegated (Inr call # outs) = call # delegated outs"
| "delegated (Inl e # outs) = delegated outs"

subsection \<open>Concrete inputs\<close>

text \<open>
  Three bundles with 2, 3 and 1 blocks; a world with no transformer configured and an empty
  log; a context without an upstream transformer and one with transformer 7 attached.
  Remote arguments are strings here.
\<close>

abbreviation bundles_2_3_1 :: "RefBundle list" where
  "bundles_2_3_1 \<equiv> [\<lparr>blocks = [0, 1]\<rparr>, \<lparr>blocks = [2, 3, 4]\<rparr>, \<lparr>blocks = [5]\<rparr>]"

abbreviation world_with :: "ShuffleStrategy \<Rightarrow> string world" where
  "world_with s \<equiv>
     \<lparr>data_context = \<lparr>shuffle_strategy = s\<rparr>, map_transformers = Map.empty, trace = []\<rparr>"

abbreviation plain_ctx :: "string TaskContext" where
  "plain_ctx \<equiv>
     \<lparr>target_max_block_size = Bytes 128, upstream_map_transformer = None,
      upstream_map_ray_remote_args = None\<rparr>"

abbreviation fused_ctx :: "string \<Rightarrow> string TaskContext" where
  "fused_ctx a \<equiv>
     \<lparr>target_max_block_size = Bytes 128, upstream_map_transformer = Some 7,
      upstream_map_ray_remote_args = Some a\<rparr>"

subsection \<open>Basic facts\<close>

lemma executed_append: "executed (xs @ ys) = executed xs @ executed ys"
  by (induction xs rule: executed.induct) simp_all

lemma built_specs_append: "built_specs (xs @ ys) = built_specs xs @ built_specs ys"
  by (induction xs rule: built_specs.induct) simp_all

lemma overrides_append: "overrides (xs @ ys) = overrides xs @ overrides ys"
  by (induction xs rule: overrides.induct) simp_all

text \<open>One invocation: what it leaves in the closure and adds to the log.\<close>

lemmas fn_defs = fn_def fuse_upstream_def execute_def Let_def

lemma fn_seed: "seed (fst (snd (fn c w rs ctx))) = seed c"
  by (simp add: fn_defs split: option.splits)

lemma fn_num_outputs: "num_outputs (fst (snd (fn c w rs ctx))) = num_outputs c"
  by (simp add: fn_defs split: option.splits)

lemma fn_ray_remote_args:
  "ray_remote_args (fst (snd (fn c w rs ctx))) =
     (case upstream_map_transformer ctx of
        None \<Rightarrow> ray_remote_args c
      | Some mt \<Rightarrow> upstream_map_ray_remote_args ctx)"
  by (simp add: fn_defs split: option.splits)

lemma fn_built_seeds:
  "map random_seed (built_specs (trace (snd (snd (fn c w rs ctx))))) =
     map random_seed (built_specs (trace w)) @ [seed c]"
  by (simp add: fn_defs built_specs_append split: option.splits)

lemma fn_overrides:
  "overrides (trace (snd (snd (fn c w rs ctx)))) =
     overrides (trace w) @
       (case upstream_map_transformer ctx of None \<Rightarrow> [] | Some mt \<Rightarrow> [(mt, Infinite)])"
  by (simp add: fn_defs overrides_append split: option.splits)

lemma fn_executed:
  "executed (trace (snd (snd (fn c w rs ctx)))) =
     executed (trace w) @ delegated [fst (fn c w rs ctx)]"
  by (simp add: fn_defs executed_append split: option.splits)

lemma fn_delegated_seed:
  "map (\<lambda>call. random_seed (spec_of (scheduler call))) (delegated [fst (fn c w rs ctx)]) =
     replicate (length (delegated [fst (fn c w rs ctx)])) (seed c)"
  by (simp add: fn_defs split: option.splits)

lemma invoke_all_Cons_outcomes:
  "fst (invoke_all c w ((rs, ctx) # rest)) =
     fst (fn c w rs ctx) #
     fst (invoke_all (fst (snd (fn c w rs ctx))) (snd (snd (fn c w rs ctx))) rest)"
  by (simp split: prod.splits)

lemma invoke_all_Cons_closure:
  "fst (snd (invoke_all c w ((rs, ctx) # rest))) =
     fst (snd (invoke_all (fst (snd (fn c w rs ctx))) (snd (snd (fn c w rs ctx))) rest))"
  by (simp split: prod.splits)

lemma invoke_all_Cons_world:
  "snd (snd (invoke_all c w ((rs, ctx) # rest))) =
     snd (snd (invoke_all (fst (snd (fn c w rs ctx))) (snd (snd (fn c w rs ctx))) rest))"
  by (simp split: prod.splits)

lemma invoke_all_seed: "seed (fst (snd (invoke_all c w calls))) = seed c"
proof (induction calls arbitrary: c w)
  case Nil
  show ?case by simp
next
  case (Cons call rest)
  obtain rs ctx where call: "call = (rs, ctx)"
    by (cases call) auto
  show ?case
    unfolding call invoke_all_Cons_closure
    by (simp add: Cons.IH fn_seed)
qed

lemma invoke_all_built_seeds:
  "map random_seed (built_specs (trace (snd (snd (invoke_all c w calls))))) =
     map random_seed (built_specs (trace w)) @ replicate (length calls) (seed c)"
proof (induction calls arbitrary: c w)
  case Nil
  show ?case by simp
next
  case (Cons call rest)
  obtain rs ctx where call: "call = (rs, ctx)"
    by (cases call) auto
  show ?case
    unfolding call invoke_all_Cons_world
    by (simp add: Cons.IH fn_seed fn_built_seeds)
qed

lemma invoke_all_executed:
  "executed (trace (snd (snd (invoke_all c w calls)))) =
     executed (trace w) @ delegated (fst (invoke_all c w calls))"
proof (induction calls arbitrary: c w)
  case Nil
  show ?case by simp
next
  case (Cons call rest)
  obtain rs ctx where call: "call = (rs, ctx)"
    by (cases call) auto
  show ?case
    unfolding call invoke_all_Cons_world invoke_all_Cons_outcomes
    by (cases "fst (fn c w rs ctx)") (simp_all add: Cons.IH fn_executed)
qed

lemma invoke_all_delegated_seed:
  "map (\<lambda>call. random_seed (spec_of (scheduler call))) (delegated (fst (invoke_all c w calls))) =
     replicate (length (delegated (fst (invoke_all c w calls)))) (seed c)"
proof (induction calls arbitrary: c w)
  case Nil
  show ?case by simp
next
  case (Cons call rest)
  obtain rs ctx where call: "call = (rs, ctx)"
    by (cases call) auto
  have d: "map (\<lambda>call. random_seed (spec_of (scheduler call))) (delegated [fst (fn c w rs ctx)]) =
             replicate (length (delegated [fst (fn c w rs ctx)])) (seed c)"
    by (rule fn_delegated_seed)
  show ?case
    unfolding call invoke_all_Cons_outcomes
    using d by (cases "fst (fn c w rs ctx)") (simp_all add: Cons.IH fn_seed)
qed

lemma invoke_all_overrides:
  "overrides (trace (snd (snd (invoke_all c w calls)))) =
     overrides (trace w) @ map (\<lambda>mt. (mt, Infinite)) (attached calls)"
proof (induction calls arbitrary: c w)
  case Nil
  show ?case by simp
next
  case (Cons call rest)
  obtain rs ctx where call: "call = (rs, ctx)"
    by (cases call) auto
  show ?case
    unfolding call invoke_all_Cons_world
    by (simp add: Cons.IH fn_overrides split: option.splits)
qed

lemma invoke_all_ray_remote_args:
  "ray_remote_args (fst (snd (invoke_all c w calls))) = last_rebinding (ray_remote_args c) calls"
proof (induction calls arbitrary: c w)
  case Nil
  show ?case by simp
next
  case (Cons call rest)
  obtain rs ctx where call: "call = (rs, ctx)"
    by (cases call) auto
  show ?case
    unfolding call invoke_all_Cons_closure
    by (simp add: Cons.IH fn_ray_remote_args)
qed

lemma INT32_MAX_pos: "0 < INT32_MAX"
  by (simp add: INT32_MAX_def)

text \<open>
  Without an upstream transformer, an invocation hands the scheduler whatever
  \<open>ray_remote_args\<close> is bound to when it starts.
\<close>

lemma fn_unfused_passes_captured:
  assumes "upstream_map_transformer ctx = None"
    and "fst (fn c w rs ctx) = Inr call"
  shows "map_ray_remote_args call = ray_remote_args c \<and>
         reduce_ray_remote_args call = ray_remote_args c"
  using assms by (auto simp add: fn_defs split: if_splits)

section \<open>The claims\<close>

subsection \<open>Strategy selection and the output count\<close>

text \<open>
  C1. Under the push-based strategy, an invocation of a transform whose \<open>num_outputs\<close> was
  supplied (any value, \<open>0\<close> included) ends in \<open>NotImplementedError\<close>, and the log gains
  no call of \<open>execute\<close>, of either scheduler. \<open>num_outputs\<close> is never rebound
  (\<open>fn_num_outputs\<close>), so the closure of every invocation has the value given at
  construction.
\<close>

theorem push_based_rejects_num_outputs:
  assumes "shuffle_strategy (data_context w) = SORT_SHUFFLE_PUSH_BASED"
    and "num_outputs c = Some n"
  shows "fst (fn c w rs ctx) = Inl NotImplementedError \<and>
         executed (trace (snd (snd (fn c w rs ctx)))) = executed (trace w)"
  using assms by (simp add: fn_defs executed_append split: option.splits)

theorem push_based_rejects_num_outputs_witness:
  "shuffle_strategy (data_context (world_with SORT_SHUFFLE_PUSH_BASED)) = SORT_SHUFFLE_PUSH_BASED \<and>
   num_outputs (generate_random_shuffle_fn 0 (Some 1) (Some 4) (Some ''caller'') None) = Some 4 \<and>
   fst (fn (generate_random_shuffle_fn 0 (Some 1) (Some 4) (Some ''caller'') None)
          (world_with SORT_SHUFFLE_PUSH_BASED) bundles_2_3_1 plain_ctx) = Inl NotImplementedError"
  using push_based_rejects_num_outputs [where w = "world_with SORT_SHUFFLE_PUSH_BASED"
      and c = "generate_random_shuffle_fn 0 (Some 1) (Some 4) (Some ''caller'') None"
      and n = 4 and rs = bundles_2_3_1 and ctx = plain_ctx]
  by (simp add: generate_random_shuffle_fn_def)

text \<open>
  C2. With \<open>num_outputs\<close> omitted, the invocation delegates (it cannot be rejected), under
  either strategy, and the output count it passes to \<open>execute\<close> is the sum of
  \<open>len(r.blocks)\<close> over the input bundles. The call is the one added to the log.
\<close>

theorem default_output_count:
  assumes "num_outputs c = None"
  shows "\<exists>call. fst (fn c w rs ctx) = Inr call \<and>
           output_num_blocks call = (\<Sum>r\<leftarrow>rs. int (length (blocks r))) \<and>
           executed (trace (snd (snd (fn c w rs ctx)))) = executed (trace w) @ [call]"
  using assms
  by (simp add: fn_defs executed_append py_or_def num_input_blocks_def split: option.splits)

text \<open>Bundles with 2, 3 and 1 blocks give the output count 6.\<close>

theorem default_output_count_witness:
  "num_outputs (generate_random_shuffle_fn 0 (Some 1) None (Some ''caller'') None) = None \<and>
   (\<exists>call. fst (fn (generate_random_shuffle_fn 0 (Some 1) None (Some ''caller'') None)
                  (world_with DEFAULT) bundles_2_3_1 plain_ctx) = Inr call \<and>
           output_num_blocks call = 6)"
  using default_output_count
      [where c = "generate_random_shuffle_fn 0 (Some 1) None (Some ''caller'') None"
      and w = "world_with DEFAULT" and rs = bundles_2_3_1 and ctx = plain_ctx]
  by (auto simp add: generate_random_shuffle_fn_def)

text \<open>
  What line 84 passes when \<open>num_outputs\<close> was supplied and the invocation is not
  rejected: the supplied value when it is not \<open>0\<close>, and the number of input blocks when
  it is \<open>0\<close>, for every closure, world, input and context.
\<close>

lemma explicit_output_count_nonzero:
  assumes "shuffle_strategy (data_context w) \<noteq> SORT_SHUFFLE_PUSH_BASED"
    and "num_outputs c = Some n"
    and "n \<noteq> 0"
  shows "\<exists>call. fst (fn c w rs ctx) = Inr call \<and>
           output_num_blocks call = n \<and>
           executed (trace (snd (snd (fn c w rs ctx)))) = executed (trace w) @ [call]"
  using assms
  by (simp add: fn_defs executed_append py_or_def split: option.splits)

lemma explicit_output_count_zero:
  assumes "shuffle_strategy (data_context w) \<noteq> SORT_SHUFFLE_PUSH_BASED"
    and "num_outputs c = Some 0"
  shows "\<exists>call. fst (fn c w rs ctx) = Inr call \<and>
           output_num_blocks call = (\<Sum>r\<leftarrow>rs. int (length (blocks r))) \<and>
           executed (trace (snd (snd (fn c w rs ctx)))) = executed (trace w) @ [call]"
  using assms
  by (simp add: fn_defs executed_append py_or_def num_input_blocks_def split: option.splits)

lemma explicit_output_count_ten:
  "\<exists>call. fst (fn (generate_random_shuffle_fn 0 (Some 1) (Some 10) (Some ''caller'') None)
                 (world_with DEFAULT) bundles_2_3_1 plain_ctx) = Inr call \<and>
          output_num_blocks call = 10"
  using explicit_output_count_nonzero [where w = "world_with DEFAULT"
      and c = "generate_random_shuffle_fn 0 (Some 1) (Some 10) (Some ''caller'') None"
      and n = 10 and rs = bundles_2_3_1 and ctx = plain_ctx]
  by (auto simp add: generate_random_shuffle_fn_def)


subsection \<open>The seed\<close>

text \<open>
  C4. Constructed with \<open>seed = None\<close>, the transform holds the reading of the clock at
  construction modulo \<open>INT32_MAX\<close>, which lies in \<open>[0, INT32_MAX)\<close> for every reading;
  \<open>fn\<close> takes no reading of its own, and over any series of invocations each one builds
  one \<open>ShuffleTaskSpec\<close>, with that seed.
\<close>

theorem derived_seed_fixed_in_range:
  "seed (generate_random_shuffle_fn time_ns None n a d) = time_ns mod INT32_MAX \<and>
   0 \<le> seed (generate_random_shuffle_fn time_ns None n a d) \<and>
   seed (generate_random_shuffle_fn time_ns None n a d) < INT32_MAX \<and>
   map random_seed
     (built_specs (trace (snd (snd
        (invoke_all (generate_random_shuffle_fn time_ns None n a d) w calls))))) =
     map random_seed (built_specs (trace w)) @ replicate (length calls) (time_ns mod INT32_MAX)"
proof -
  have s: "seed (generate_random_shuffle_fn time_ns None n a d) = time_ns mod INT32_MAX"
    by (simp add: generate_random_shuffle_fn_def)
  show ?thesis
    using INT32_MAX_pos
    by (simp add: s invoke_all_built_seeds)
qed

text \<open>
  C5. A supplied seed (any integer, \<open>0\<close> included: line 35 tests \<open>is not None\<close>) is the
  resolved seed. Over any series of invocations, each builds its \<open>ShuffleTaskSpec\<close> with
  it; the calls of \<open>execute\<close> added to the log are those the invocations delegated, and the
  scheduler of each holds a spec with this seed.
\<close>

theorem explicit_seed_unchanged:
  "seed (generate_random_shuffle_fn time_ns (Some s) n a d) = s \<and>
   map random_seed
     (built_specs (trace (snd (snd
        (invoke_all (generate_random_shuffle_fn time_ns (Some s) n a d) w calls))))) =
     map random_seed (built_specs (trace w)) @ replicate (length calls) s \<and>
   executed (trace (snd (snd
        (invoke_all (generate_random_shuffle_fn time_ns (Some s) n a d) w calls)))) =
     executed (trace w) @
     delegated (fst (invoke_all (generate_random_shuffle_fn time_ns (Some s) n a d) w calls)) \<and>
   map (\<lambda>call. random_seed (spec_of (scheduler call)))
     (delegated (fst (invoke_all (generate_random_shuffle_fn time_ns (Some s) n a d) w calls))) =
     replicate
       (length (delegated
          (fst (invoke_all (generate_random_shuffle_fn time_ns (Some s) n a d) w calls)))) s"
proof -
  have s: "seed (generate_random_shuffle_fn time_ns (Some s) n a d) = s"
    by (simp add: generate_random_shuffle_fn_def)
  show ?thesis
    using invoke_all_built_seeds [of "generate_random_shuffle_fn time_ns (Some s) n a d" w calls]
      invoke_all_executed [of "generate_random_shuffle_fn time_ns (Some s) n a d" w calls]
      invoke_all_delegated_seed [of "generate_random_shuffle_fn time_ns (Some s) n a d" w calls]
    by (simp add: s)
qed

subsection \<open>Fusion with an upstream transformer\<close>

text \<open>
  C6. In an invocation whose context has an upstream transformer attached, the call of
  \<open>execute\<close> receives \<open>ctx.upstream_map_ray_remote_args\<close> as both
  \<open>map_ray_remote_args\<close> and \<open>reduce_ray_remote_args\<close>, whatever \<open>ray_remote_args\<close>
  was bound to before. The invocation delegates exactly one such call unless it is
  rejected, and it is rejected only in the case of C1, where nothing is passed to a
  scheduler.
\<close>

theorem fused_remote_args_from_upstream:
  assumes "upstream_map_transformer ctx = Some mt"
  shows "case fst (fn c w rs ctx) of
           Inl e \<Rightarrow>
             shuffle_strategy (data_context w) = SORT_SHUFFLE_PUSH_BASED \<and>
             num_outputs c \<noteq> None \<and>
             executed (trace (snd (snd (fn c w rs ctx)))) = executed (trace w)
         | Inr call \<Rightarrow>
             map_ray_remote_args call = upstream_map_ray_remote_args ctx \<and>
             reduce_ray_remote_args call = upstream_map_ray_remote_args ctx \<and>
             executed (trace (snd (snd (fn c w rs ctx)))) = executed (trace w) @ [call]"
  using assms by (simp add: fn_defs executed_append)

theorem fused_remote_args_from_upstream_witness:
  "upstream_map_transformer (fused_ctx ''upstream'') = Some 7 \<and>
   map_sum id map_ray_remote_args
     (fst (fn (generate_random_shuffle_fn 0 (Some 1) None (Some ''caller'') None)
            (world_with DEFAULT) bundles_2_3_1 (fused_ctx ''upstream''))) = Inr (Some ''upstream'') \<and>
   map_sum id reduce_ray_remote_args
     (fst (fn (generate_random_shuffle_fn 0 (Some 1) None (Some ''caller'') None)
            (world_with DEFAULT) bundles_2_3_1 (fused_ctx ''upstream''))) = Inr (Some ''upstream'')"
  using fused_remote_args_from_upstream [where ctx = "fused_ctx ''upstream''" and mt = 7
      and c = "generate_random_shuffle_fn 0 (Some 1) None (Some ''caller'') None"
      and w = "world_with DEFAULT" and rs = bundles_2_3_1]
  by (auto split: sum.splits)

text \<open>
  C7. The claim is that an invocation without an upstream transformer passes the
  caller's original arguments, also after an earlier invocation that had one. The code
  does not: a transform constructed with the arguments \<open>''caller''\<close>, invoked first with
  a transformer attached (upstream arguments \<open>''upstream''\<close>) and then without one, passes
  \<open>''upstream''\<close> to the scheduler both times, for the map and for the reduce phase.
\<close>

theorem unfused_after_fused_receives_upstream_args:
  "map (map_sum id map_ray_remote_args)
     (fst (invoke_all (generate_random_shuffle_fn 0 (Some 1) None (Some ''caller'') None)
            (world_with DEFAULT)
            [(bundles_2_3_1, fused_ctx ''upstream''), (bundles_2_3_1, plain_ctx)])) =
     [Inr (Some ''upstream''), Inr (Some ''upstream'')] \<and>
   map (map_sum id reduce_ray_remote_args)
     (fst (invoke_all (generate_random_shuffle_fn 0 (Some 1) None (Some ''caller'') None)
            (world_with DEFAULT)
            [(bundles_2_3_1, fused_ctx ''upstream''), (bundles_2_3_1, plain_ctx)])) =
     [Inr (Some ''upstream''), Inr (Some ''upstream'')]"
  by (simp add: fn_defs py_or_def num_input_blocks_def generate_random_shuffle_fn_def)

text \<open>
  C8, as amended. The override of the upstream transformer's target block size to infinity
  happens once in every invocation that has a transformer attached, on that transformer,
  and nowhere else: over any series of invocations the log gains one override per such
  invocation, in order, each with the value infinity. Construction performs none
  (\<open>generate_random_shuffle_fn\<close> returns the closure and touches no shared object).
\<close>

theorem override_once_per_fused_invocation:
  "overrides (trace (snd (snd (invoke_all c w calls)))) =
     overrides (trace w) @ map (\<lambda>mt. (mt, Infinite)) (attached calls)"
  by (rule invoke_all_overrides)

text \<open>
  C8 as stated fails: one constructed transform, invoked twice with transformer 7
  attached, overrides its block size twice.
\<close>

theorem override_twice_counterexample:
  "overrides (trace (snd (snd
     (invoke_all (generate_random_shuffle_fn 0 (Some 1) None (Some ''caller'') None)
        (world_with DEFAULT)
        [(bundles_2_3_1, fused_ctx ''upstream''), (bundles_2_3_1, fused_ctx ''upstream'')])))) =
     [(7, Infinite), (7, Infinite)]"
  by (simp add: fn_defs py_or_def num_input_blocks_def generate_random_shuffle_fn_def)

subsection \<open>State that outlives an invocation\<close>

text \<open>
  C9, as amended. An invocation with an upstream transformer attached leaves
  \<open>ray_remote_args\<close> bound to its \<open>ctx.upstream_map_ray_remote_args\<close>, whether it
  delegates or raises. The binding outlives the call: after any further invocations it
  is the upstream arguments of the last of them that had a transformer attached, and it
  is unchanged if none had; the value given at construction is never restored.
\<close>

theorem rebinding_persists_until_rebound:
  assumes "upstream_map_transformer ctx = Some mt"
  shows "ray_remote_args (fst (snd (fn c w rs ctx))) = upstream_map_ray_remote_args ctx \<and>
         ray_remote_args
           (fst (snd (invoke_all (fst (snd (fn c w rs ctx))) (snd (snd (fn c w rs ctx))) later))) =
           last_rebinding (upstream_map_ray_remote_args ctx) later"
  using assms by (simp add: fn_ray_remote_args invoke_all_ray_remote_args)

theorem rebinding_persists_until_rebound_witness:
  "upstream_map_transformer (fused_ctx ''upstream'') = Some 7 \<and>
   ray_remote_args (fst (snd
     (fn (generate_random_shuffle_fn 0 (Some 1) None (Some ''caller'') None)
        (world_with DEFAULT) bundles_2_3_1 (fused_ctx ''upstream'')))) = Some ''upstream'' \<and>
   ray_remote_args (fst (snd
     (invoke_all
        (fst (snd (fn (generate_random_shuffle_fn 0 (Some 1) None (Some ''caller'') None)
           (world_with DEFAULT) bundles_2_3_1 (fused_ctx ''upstream''))))
        (snd (snd (fn (generate_random_shuffle_fn 0 (Some 1) None (Some ''caller'') None)
           (world_with DEFAULT) bundles_2_3_1 (fused_ctx ''upstream''))))
        [(bundles_2_3_1, plain_ctx), (bundles_2_3_1, plain_ctx)]))) = Some ''upstream''"
  using rebinding_persists_until_rebound [where ctx = "fused_ctx ''upstream''" and mt = 7
      and c = "generate_random_shuffle_fn 0 (Some 1) None (Some ''caller'') None"
      and w = "world_with DEFAULT" and rs = bundles_2_3_1
      and later = "[(bundles_2_3_1, plain_ctx), (bundles_2_3_1, plain_ctx)]"]
  by simp

text \<open>
  C9 as stated fails: the replacement by one invocation's upstream arguments is not
  permanent. After an invocation with upstream arguments \<open>''first''\<close> and one with
  \<open>''second''\<close>, the captured arguments are no longer those of the first, and a third
  invocation, without a transformer, passes \<open>''second''\<close>.
\<close>

theorem rebinding_overwritten_counterexample:
  "ray_remote_args (fst (snd
     (invoke_all (generate_random_shuffle_fn 0 (Some 1) None (Some ''caller'') None)
        (world_with DEFAULT)
        [(bundles_2_3_1, fused_ctx ''first''), (bundles_2_3_1, fused_ctx ''second'')]))) \<noteq>
   upstream_map_ray_remote_args (fused_ctx ''first'') \<and>
   map (map_sum id map_ray_remote_args)
     (fst (invoke_all (generate_random_shuffle_fn 0 (Some 1) None (Some ''caller'') None)
            (world_with DEFAULT)
            [(bundles_2_3_1, fused_ctx ''first''), (bundles_2_3_1, fused_ctx ''second''),
             (bundles_2_3_1, plain_ctx)])) =
     [Inr (Some ''first''), Inr (Some ''second''), Inr (Some ''second'')]"
  by (simp add: fn_defs py_or_def num_input_blocks_def generate_random_shuffle_fn_def)

text \<open>
  C10. Under the push-based strategy with \<open>num_outputs\<close> supplied and an upstream
  transformer attached, the invocation raises \<open>NotImplementedError\<close>, and the state it
  leaves behind has both effects of lines 57 and 64, which precede the check: the
  transformer's target block size is infinity (one override was logged) and
  \<open>ray_remote_args\<close> is bound to \<open>ctx.upstream_map_ray_remote_args\<close>.
\<close>

theorem rejection_keeps_side_effects:
  assumes "shuffle_strategy (data_context w) = SORT_SHUFFLE_PUSH_BASED"
    and "num_outputs c = Some n"
    and "upstream_map_transformer ctx = Some mt"
  shows "fst (fn c w rs ctx) = Inl NotImplementedError \<and>
         map_transformers (snd (snd (fn c w rs ctx))) mt = Some Infinite \<and>
         overrides (trace (snd (snd (fn c w rs ctx)))) = overrides (trace w) @ [(mt, Infinite)] \<and>
         ray_remote_args (fst (snd (fn c w rs ctx))) = upstream_map_ray_remote_args ctx"
  using assms by (simp add: fn_defs overrides_append)

theorem rejection_keeps_side_effects_witness:
  "shuffle_strategy (data_context (world_with SORT_SHUFFLE_PUSH_BASED)) = SORT_SHUFFLE_PUSH_BASED \<and>
   num_outputs (generate_random_shuffle_fn 0 (Some 1) (Some 4) (Some ''caller'') None) = Some 4 \<and>
   upstream_map_transformer (fused_ctx ''upstream'') = Some 7 \<and>
   fst (fn (generate_random_shuffle_fn 0 (Some 1) (Some 4) (Some ''caller'') None)
          (world_with SORT_SHUFFLE_PUSH_BASED) bundles_2_3_1 (fused_ctx ''upstream'')) =
     Inl NotImplementedError \<and>
   map_transformers (snd (snd
     (fn (generate_random_shuffle_fn 0 (Some 1) (Some 4) (Some ''caller'') None)
        (world_with SORT_SHUFFLE_PUSH_BASED) bundles_2_3_1 (fused_ctx ''upstream'')))) 7 =
     Some Infinite \<and>
   ray_remote_args (fst (snd
     (fn (generate_random_shuffle_fn 0 (Some 1) (Some 4) (Some ''caller'') None)
        (world_with SORT_SHUFFLE_PUSH_BASED) bundles_2_3_1 (fused_ctx ''upstream'')))) =
     Some ''upstream''"
  using rejection_keeps_side_effects [where w = "world_with SORT_SHUFFLE_PUSH_BASED"
      and c = "generate_random_shuffle_fn 0 (Some 1) (Some 4) (Some ''caller'') None"
      and n = 4 and ctx = "fused_ctx ''upstream''" and mt = 7 and rs = bundles_2_3_1]
  by (simp add: generate_random_shuffle_fn_def)

end
